theory Spec2Isabelle
  imports Main
begin

section \<open>The Service Bus store of socket.io-servicebus (lib/sbstore.js)\<close>

text \<open>
  The store is a JavaScript object with three fields (\<open>nodeId\<close>, \<open>sb\<close>, \<open>subscribers\<close>)
  and a handful of methods. Each method is embedded as a function from the store (and the
  method's arguments) to a pair: the outcome, which is either the JavaScript error thrown
  or the store after the call, and the sequence of calls the method made into code that
  lives outside this file, in the order it made them. Those calls are the event emitter's
  \<open>emit\<close>, the methods of the batching transport \<open>this.sb\<close>, the hooks of listener
  objects, the consumers held in the registry, and the constructors of the transport
  layers. They are recorded, not interpreted: the embedding covers the runs in which each
  such call returns to the store.
\<close>

subsection \<open>Values, errors, identities\<close>

text \<open>
  Functions and listener objects are compared by identity only, so each is a number
  naming the object. Message arguments are passed through untouched; numbers are integers
  here because no arithmetic is ever done on them.
\<close>

type_synonym consumer = nat
type_synonym listener = nat

datatype jsval =
    JUndefined
  | JNull
  | JBool bool
  | JNum int
  | JStr string
  | JArr "jsval list"
  | JFun consumer

text \<open>ToBoolean, as \<open>||\<close>, \<open>&&\<close>, \<open>!\<close>, \<open>if\<close> and \<open>Array.prototype.filter\<close> apply it.\<close>

fun truthy :: "jsval \<Rightarrow> bool" where
  "truthy JUndefined = False"
| "truthy JNull = False"
| "truthy (JBool b) = b"
| "truthy (JNum n) = (n \<noteq> 0)"
| "truthy (JStr s) = (s \<noteq> [])"
| "truthy (JArr xs) = True"
| "truthy (JFun f) = True"

text \<open>
  An optional string property of the options object: absent (\<open>undefined\<close>) or a string;
  the empty string is falsy. An optional object property is truthy when it is there.
\<close>

definition truthy_string :: "string option \<Rightarrow> bool" where
  "truthy_string v = (case v of None \<Rightarrow> False | Some s \<Rightarrow> truthy (JStr s))"

definition truthy_object :: "nat option \<Rightarrow> bool" where
  "truthy_object v = (case v of None \<Rightarrow> False | Some obj \<Rightarrow> True)"

text \<open>
  The errors the file can throw: \<open>new Error(message)\<close> written out in
  \<open>createServiceBusInterface\<close>, and the TypeError and ReferenceError the language raises
  (their string names the expression that failed).
\<close>

datatype js_error =
    Error string
  | TypeError string
  | ReferenceError string

subsection \<open>Construction options and the transport objects\<close>

datatype listeners_option =
    NoListeners
  | OneListener listener
  | ListenerArray "listener list"

record options =
  opt_nodeId :: "string option"
  connectionString :: "string option"
  serviceBusService :: "nat option"
  topic :: "string option"
  subscription :: "string option"
  listeners :: listeners_option

text \<open>
  The raw service handed on to the transport layers: what
  \<open>azure.createServiceBusService(options.connectionString)\<close> returned, or
  \<open>options.serviceBusService\<close> itself.
\<close>

datatype service =
    AzureService "string option"
  | OptionsService "nat option"

record create_options =
  co_nodeId :: string
  co_topic :: "string option"
  co_subscription :: "string option"
  co_serviceBusService :: service

datatype servicebus_interface = ServiceBusInterface create_options

datatype batch_interface = BatchInterface create_options servicebus_interface

subsection \<open>The store and the calls it makes\<close>

record store =
  nodeId :: string
  sb :: batch_interface
  subscribers :: "string \<rightharpoonup> consumer list"

datatype effect =
    IoStoreApply "options option"
  | Uuid
  | AzureCreateServiceBusService "string option"
  | NewServiceBusInterface create_options
  | NewBatchInterface create_options servicebus_interface
  | ListenerStore listener store
  | ListenerSb listener batch_interface
  | SbOn string
  | SbStart
  | SbStop
  | SbSend "jsval list"
  | IoStoreDestroy
  | Emit string "jsval list"
  | Apply consumer "jsval list"

type_synonym outcome = "(js_error + store) \<times> effect list"

subsection \<open>Reading the registry\<close>

text \<open>
  \<open>this.subscribers\<close> starts as the object literal \<open>{}\<close>, whose prototype is
  \<open>Object.prototype\<close>. Reading \<open>this.subscribers[name]\<close> gives the own property when
  there is one, else the property inherited under that name (a function, or the prototype
  object for \<open>__proto__\<close>: truthy, and no array), else \<open>undefined\<close>.
\<close>

definition Object_prototype :: "string list" where
  "Object_prototype =
     [''constructor'', ''toString'', ''toLocaleString'', ''valueOf'', ''hasOwnProperty'',
      ''isPrototypeOf'', ''propertyIsEnumerable'', ''__defineGetter__'',
      ''__defineSetter__'', ''__lookupGetter__'', ''__lookupSetter__'', ''__proto__'']"

datatype property = OwnArray "consumer list" | Inherited | NoProperty

definition get_property :: "(string \<rightharpoonup> consumer list) \<Rightarrow> string \<Rightarrow> property" where
  "get_property obj name =
     (case obj name of
        Some arr \<Rightarrow> OwnArray arr
      | None \<Rightarrow> if name \<in> set Object_prototype then Inherited else NoProperty)"

text \<open>\<open>this.subscribers[name] || []\<close>: an array is truthy, \<open>undefined\<close> is not.\<close>

definition subscribers_or_empty :: "store \<Rightarrow> string \<Rightarrow> property" where
  "subscribers_or_empty this name =
     (case get_property (subscribers this) name of
        OwnArray arr \<Rightarrow> OwnArray arr
      | Inherited \<Rightarrow> Inherited
      | NoProperty \<Rightarrow> OwnArray [])"

subsection \<open>publish, subscribe, unsubscribe\<close>

text \<open>
  \<open>publish\<close> works on its \<open>arguments\<close> object: \<open>name\<close> is the first argument
  (\<open>undefined\<close> when there is none), \<open>argsArray.slice(1)\<close> the rest.
\<close>

definition publish :: "store \<Rightarrow> jsval list \<Rightarrow> outcome" where
  "publish this arguments =
     (let argsArray = arguments;
          name = (case arguments of [] \<Rightarrow> JUndefined | a # rest \<Rightarrow> a);
          args = [name, JArr (drop 1 argsArray)]
      in (Inr this, [SbSend args, Emit ''publish'' argsArray]))"

definition subscribe :: "store \<Rightarrow> string \<Rightarrow> consumer \<Rightarrow> outcome" where
  "subscribe this name consumer =
     (case subscribers_or_empty this name of
        Inherited \<Rightarrow> (Inl (TypeError ''subscribers.push is not a function''), [])
      | NoProperty \<Rightarrow> (Inl (TypeError ''Cannot call method push of undefined''), [])
      | OwnArray arr \<Rightarrow>
          (Inr (this\<lparr>subscribers := (subscribers this)(name \<mapsto> arr @ [consumer])\<rparr>),
           [Emit ''subscribe'' [JStr name, JFun consumer]]))"

text \<open>
  The callback handed to \<open>filter\<close> is \<open>function (item) { item !== consumer; }\<close>: it
  evaluates the comparison and returns nothing, so its value is \<open>undefined\<close>.
\<close>

definition unsubscribe_callback :: "consumer \<Rightarrow> consumer \<Rightarrow> jsval" where
  "unsubscribe_callback consumer item = (let compared = JBool (item \<noteq> consumer) in JUndefined)"

definition unsubscribe :: "store \<Rightarrow> string \<Rightarrow> consumer \<Rightarrow> outcome" where
  "unsubscribe this name consumer =
     (case subscribers_or_empty this name of
        Inherited \<Rightarrow> (Inl (TypeError ''subscribers.filter is not a function''), [])
      | NoProperty \<Rightarrow> (Inl (TypeError ''Cannot call method filter of undefined''), [])
      | OwnArray arr \<Rightarrow>
          (Inr (this\<lparr>subscribers := (subscribers this)
                  (name \<mapsto> filter (\<lambda>item. truthy (unsubscribe_callback consumer item)) arr)\<rparr>),
           [Emit ''unsubscribe'' [JStr name, JFun consumer]]))"

subsection \<open>destroy\<close>

text \<open>
  \<open>destroy\<close> begins with \<open>Store.prototype.destroy.call(this)\<close>. The identifier \<open>Store\<close>
  is looked up in the module: its own declarations (the \<open>var\<close> list, the function
  \<open>ServiceBusStore\<close>, the names Node's module wrapper binds) and then the global object.
  An identifier found in neither is a ReferenceError.
\<close>

definition module_scope :: "string list" where
  "module_scope =
     [''io'', ''util'', ''uuid'', ''azure'', ''Client'', ''logging'', ''BatchInterface'',
      ''ServiceBusInterface'', ''ServiceBusStore'',
      ''exports'', ''require'', ''module'', ''__filename'', ''__dirname'']"

definition global_scope :: "string list" where
  "global_scope =
     [''global'', ''process'', ''console'', ''Buffer'', ''setTimeout'', ''clearTimeout'',
      ''setInterval'', ''clearInterval'',
      ''Object'', ''Function'', ''Array'', ''String'', ''Boolean'', ''Number'', ''Date'',
      ''RegExp'', ''Error'', ''EvalError'', ''RangeError'', ''ReferenceError'',
      ''SyntaxError'', ''TypeError'', ''URIError'', ''Math'', ''JSON'',
      ''NaN'', ''Infinity'', ''undefined'', ''eval'', ''parseInt'', ''parseFloat'',
      ''isNaN'', ''isFinite'', ''decodeURI'', ''decodeURIComponent'', ''encodeURI'',
      ''encodeURIComponent'', ''escape'', ''unescape'']"

definition resolves :: "string \<Rightarrow> bool" where
  "resolves identifier = (identifier \<in> set module_scope \<or> identifier \<in> set global_scope)"

definition destroy :: "store \<Rightarrow> outcome" where
  "destroy this =
     (if \<not> resolves ''Store'' then (Inl (ReferenceError ''Store is not defined''), [])
      else (Inr (this\<lparr>subscribers := Map.empty\<rparr>), [IoStoreDestroy, SbStop]))"

subsection \<open>receiveMessage\<close>

definition receiveMessage :: "store \<Rightarrow> string \<Rightarrow> string \<Rightarrow> jsval list \<Rightarrow> outcome" where
  "receiveMessage this sourceNodeId name args =
     (let received = Emit ''received'' [JStr sourceNodeId, JStr name, JArr args]
      in if sourceNodeId \<noteq> nodeId this then
           (case subscribers_or_empty this name of
              Inherited \<Rightarrow> (Inl (TypeError ''subscribers.forEach is not a function''), [received])
            | NoProperty \<Rightarrow> (Inl (TypeError ''Cannot call method forEach of undefined''), [received])
            | OwnArray arr \<Rightarrow> (Inr this, received # map (\<lambda>sub. Apply sub args) arr))
         else (Inr this, [received]))"

subsection \<open>Construction\<close>

definition createServiceBusInterface :: "string \<Rightarrow> options option \<Rightarrow> (js_error + batch_interface) \<times> effect list" where
  "createServiceBusInterface this_nodeId options_arg =
     (case options_arg of
        None \<Rightarrow> (Inl (TypeError ''Cannot read property connectionString of undefined''), [])
      | Some opts \<Rightarrow>
          if truthy_string (connectionString opts) \<and> truthy_object (serviceBusService opts) then
            (Inl (Error ''Should specify connection string or serviceBusService object, not both''), [])
          else if \<not> truthy_string (connectionString opts) \<and> \<not> truthy_object (serviceBusService opts) then
            (Inl (Error ''Must specify one of connectionString or serviceBusService in options''), [])
          else
            (let (service, created) =
                   (if truthy_string (connectionString opts)
                    then (AzureService (connectionString opts),
                          [AzureCreateServiceBusService (connectionString opts)])
                    else (OptionsService (serviceBusService opts), []));
                 createOptions = \<lparr>co_nodeId = this_nodeId, co_topic = topic opts,
                                  co_subscription = subscription opts,
                                  co_serviceBusService = service\<rparr>
             in (Inr (BatchInterface createOptions (ServiceBusInterface createOptions)),
                 created @ [NewServiceBusInterface createOptions,
                            NewBatchInterface createOptions (ServiceBusInterface createOptions)])))"

text \<open>
  \<open>listeners = listeners || []\<close>, then a value that is no array is wrapped in one.
\<close>

definition listener_array :: "listeners_option \<Rightarrow> listener list" where
  "listener_array ls =
     (case ls of NoListeners \<Rightarrow> [] | OneListener l \<Rightarrow> [l] | ListenerArray xs \<Rightarrow> xs)"

definition hookupListeners :: "store \<Rightarrow> listeners_option \<Rightarrow> effect list" where
  "hookupListeners that ls =
     concat (map (\<lambda>l. [ListenerStore l that, ListenerSb l (sb that)]) (listener_array ls))"

text \<open>
  \<open>(options && options.nodeId) || uuid()\<close>; \<open>uuid_value\<close> is the string the call
  \<open>uuid()\<close> returns when it is made.
\<close>

definition choose_nodeId :: "string \<Rightarrow> options option \<Rightarrow> string \<times> effect list" where
  "choose_nodeId uuid_value options_arg =
     (case options_arg of
        None \<Rightarrow> (uuid_value, [Uuid])
      | Some opts \<Rightarrow>
          (case opt_nodeId opts of
             None \<Rightarrow> (uuid_value, [Uuid])
           | Some n \<Rightarrow> if truthy (JStr n) then (n, []) else (uuid_value, [Uuid])))"

definition ServiceBusStore :: "string \<Rightarrow> options option \<Rightarrow> outcome" where
  "ServiceBusStore uuid_value options_arg =
     (let (this_nodeId, e1) = choose_nodeId uuid_value options_arg
      in case createServiceBusInterface this_nodeId options_arg of
           (Inl err, e2) \<Rightarrow> (Inl err, IoStoreApply options_arg # e1 @ e2)
         | (Inr this_sb, e2) \<Rightarrow>
             (let this = \<lparr>nodeId = this_nodeId, sb = this_sb, subscribers = Map.empty\<rparr>;
                  e3 = hookupListeners this
                         (case options_arg of None \<Rightarrow> NoListeners | Some opts \<Rightarrow> listeners opts)
              in (Inr this, IoStoreApply options_arg # e1 @ e2 @ e3 @ [SbOn ''message'', SbStart])))"

subsection \<open>A store and options to run the methods on\<close>

text \<open>
  The store of the repository's test: node \<open>my-node-id\<close>, one consumer for
  \<open>message1\<close>, two for \<open>message2\<close>, one for \<open>message3\<close>, over a supplied service.
\<close>

definition test_options :: options where
  "test_options =
     \<lparr>opt_nodeId = Some ''my-node-id'', connectionString = None, serviceBusService = Some 0,
      topic = Some ''topic'', subscription = Some ''subscription'',
      listeners = ListenerArray [10, 11]\<rparr>"

definition test_create_options :: create_options where
  "test_create_options =
     \<lparr>co_nodeId = ''my-node-id'', co_topic = Some ''topic'',
      co_subscription = Some ''subscription'', co_serviceBusService = OptionsService (Some 0)\<rparr>"

definition fresh_store :: store where
  "fresh_store =
     \<lparr>nodeId = ''my-node-id'',
      sb = BatchInterface test_create_options (ServiceBusInterface test_create_options),
      subscribers = Map.empty\<rparr>"

definition test_store :: store where
  "test_store =
     fresh_store\<lparr>subscribers :=
       [''message1'' \<mapsto> [1], ''message2'' \<mapsto> [2, 3], ''message3'' \<mapsto> [4]]\<rparr>"


section \<open>Properties of the store\<close>

subsection \<open>Reading an entry\<close>

lemma subscribers_or_empty_usable:
  "subscribers this name \<noteq> None \<or> name \<notin> set Object_prototype \<Longrightarrow>
   subscribers_or_empty this name =
     OwnArray (case subscribers this name of None \<Rightarrow> [] | Some arr \<Rightarrow> arr)"
  by (auto simp: subscribers_or_empty_def get_property_def split: option.splits)

lemma subscribers_or_empty_never_undefined:
  "subscribers_or_empty this name \<noteq> NoProperty"
  by (simp add: subscribers_or_empty_def get_property_def split: option.splits)

lemma filter_unsubscribe_callback:
  "filter (\<lambda>item. truthy (unsubscribe_callback consumer item)) arr = []"
  by (simp add: unsubscribe_callback_def)

lemma Store_unresolved: "\<not> resolves ''Store''"
  by (simp add: resolves_def module_scope_def global_scope_def)

subsection \<open>unsubscribe\<close>

text \<open>
  C1. \<open>unsubscribe(name, consumer)\<close> is meant to take exactly \<open>consumer\<close> out of the entry
  for \<open>name\<close> and to leave the registry alone when \<open>consumer\<close> is not in it. The code does
  neither: on the store that holds consumers 2 and 3 for \<open>message2\<close>, unsubscribing 2
  leaves the entry empty (3 is gone as well), and unsubscribing 9, which was never
  subscribed, empties it too. The \<open>unsubscribe\<close> event is emitted in both runs.
\<close>

theorem unsubscribe_drops_other_consumers:
  "subscribers test_store ''message2'' = Some [2, 3] \<and>
   unsubscribe test_store ''message2'' 2 =
     (Inr (test_store\<lparr>subscribers := (subscribers test_store)(''message2'' \<mapsto> [])\<rparr>),
      [Emit ''unsubscribe'' [JStr ''message2'', JFun 2]]) \<and>
   unsubscribe test_store ''message2'' 9 =
     (Inr (test_store\<lparr>subscribers := (subscribers test_store)(''message2'' \<mapsto> [])\<rparr>),
      [Emit ''unsubscribe'' [JStr ''message2'', JFun 9]])"
  by (simp add: unsubscribe_def subscribers_or_empty_def get_property_def test_store_def
      unsubscribe_callback_def)

text \<open>
  C9. Whenever \<open>unsubscribe(name, consumer)\<close> returns, the entry for \<open>name\<close> is the empty
  sequence, whatever it held before and whether or not \<open>consumer\<close> was in it; it exists
  (empty) even if \<open>name\<close> had no entry. Every other entry is as it was, and the one call
  made is the \<open>unsubscribe\<close> event. The call does return for every name that has an entry
  or is not the name of a property inherited from \<open>Object.prototype\<close>.
\<close>

theorem unsubscribe_empties_entry:
  "(\<forall>this' calls. unsubscribe this name consumer = (Inr this', calls) \<longrightarrow>
      subscribers this' name = Some [] \<and>
      (\<forall>other. other \<noteq> name \<longrightarrow> subscribers this' other = subscribers this other) \<and>
      calls = [Emit ''unsubscribe'' [JStr name, JFun consumer]]) \<and>
   (subscribers this name \<noteq> None \<or> name \<notin> set Object_prototype \<longrightarrow>
      unsubscribe this name consumer =
        (Inr (this\<lparr>subscribers := (subscribers this)(name \<mapsto> [])\<rparr>),
         [Emit ''unsubscribe'' [JStr name, JFun consumer]]))"
proof (intro conjI allI impI)
  fix this' calls
  assume returned: "unsubscribe this name consumer = (Inr this', calls)"
  then obtain arr where "subscribers_or_empty this name = OwnArray arr"
    by (cases "subscribers_or_empty this name") (simp_all add: unsubscribe_def)
  with returned have
    this': "this' = this\<lparr>subscribers := (subscribers this)(name \<mapsto> [])\<rparr>" and
    calls: "calls = [Emit ''unsubscribe'' [JStr name, JFun consumer]]"
    by (simp_all add: unsubscribe_def filter_unsubscribe_callback)
  show "subscribers this' name = Some []"
    by (simp add: this')
  show "calls = [Emit ''unsubscribe'' [JStr name, JFun consumer]]"
    by (rule calls)
  fix other
  assume "other \<noteq> name"
  then show "subscribers this' other = subscribers this other"
    by (simp add: this')
next
  assume "subscribers this name \<noteq> None \<or> name \<notin> set Object_prototype"
  then show "unsubscribe this name consumer =
        (Inr (this\<lparr>subscribers := (subscribers this)(name \<mapsto> [])\<rparr>),
         [Emit ''unsubscribe'' [JStr name, JFun consumer]])"
    by (simp add: unsubscribe_def subscribers_or_empty_usable filter_unsubscribe_callback)
qed

theorem unsubscribe_empties_entry_witness:
  "unsubscribe test_store ''message2'' 9 =
     (Inr (test_store\<lparr>subscribers := (subscribers test_store)(''message2'' \<mapsto> [])\<rparr>),
      [Emit ''unsubscribe'' [JStr ''message2'', JFun 9]]) \<and>
   subscribers test_store ''never-subscribed'' = None \<and>
   unsubscribe test_store ''never-subscribed'' 2 =
     (Inr (test_store\<lparr>subscribers := (subscribers test_store)(''never-subscribed'' \<mapsto> [])\<rparr>),
      [Emit ''unsubscribe'' [JStr ''never-subscribed'', JFun 2]])"
proof (intro conjI)
  have present: "subscribers test_store ''message2'' \<noteq> None \<or> ''message2'' \<notin> set Object_prototype"
    by (simp add: test_store_def)
  show "unsubscribe test_store ''message2'' 9 =
     (Inr (test_store\<lparr>subscribers := (subscribers test_store)(''message2'' \<mapsto> [])\<rparr>),
      [Emit ''unsubscribe'' [JStr ''message2'', JFun 9]])"
    by (rule unsubscribe_empties_entry [THEN conjunct2, rule_format, OF present])
  show "subscribers test_store ''never-subscribed'' = None"
    by (simp add: test_store_def)
  have plain: "subscribers test_store ''never-subscribed'' \<noteq> None \<or>
      ''never-subscribed'' \<notin> set Object_prototype"
    by (simp add: Object_prototype_def)
  show "unsubscribe test_store ''never-subscribed'' 2 =
     (Inr (test_store\<lparr>subscribers := (subscribers test_store)(''never-subscribed'' \<mapsto> [])\<rparr>),
      [Emit ''unsubscribe'' [JStr ''never-subscribed'', JFun 2]])"
    by (rule unsubscribe_empties_entry [THEN conjunct2, rule_format, OF plain])
qed

subsection \<open>destroy\<close>

text \<open>
  C2. \<open>destroy()\<close> is meant to stop the transport's polling and to clear the registry
  without raising. On every store the code raises a ReferenceError at its first statement,
  because \<open>Store\<close> is bound nowhere (the base class is \<open>io.Store\<close>): \<open>this.sb.stop()\<close>
  is never called and the registry is not cleared.
\<close>

theorem destroy_raises_ReferenceError:
  "destroy this = (Inl (ReferenceError ''Store is not defined''), [])"
  by (simp add: destroy_def Store_unresolved)



subsection \<open>publish and subscribe\<close>

text \<open>
  C6. \<open>publish(name, ...args)\<close> makes exactly two calls, in this order and before it
  returns: one \<open>send\<close> on the batching transport with \<open>name\<close> and the array of the
  arguments after it, and one local \<open>publish\<close> event carrying \<open>name\<close> followed by those
  arguments. Nothing in between waits for the transport.
\<close>

theorem publish_sends_then_emits:
  "publish this (name # args) =
     (Inr this, [SbSend [name, JArr args], Emit ''publish'' (name # args)])"
  by (simp add: publish_def)

text \<open>
  C7, as the code has it. For every name that has an entry in the registry or is not the
  name of a property a plain object inherits from \<open>Object.prototype\<close>, and every
  consumer, \<open>subscribe(name, consumer)\<close> puts \<open>consumer\<close> at the end of the entry for
  \<open>name\<close> (a missing entry counts as empty and is created), keeps what the entry held in
  its order, never looks whether \<open>consumer\<close> is already there, leaves the other entries
  alone, and emits one \<open>subscribe\<close> event with \<open>(name, consumer)\<close>.
\<close>

theorem subscribe_appends:
  assumes "subscribers this name \<noteq> None \<or> name \<notin> set Object_prototype"
  shows "subscribe this name consumer =
           (Inr (this\<lparr>subscribers := (subscribers this)
                   (name \<mapsto> (case subscribers this name of None \<Rightarrow> [] | Some arr \<Rightarrow> arr) @ [consumer])\<rparr>),
            [Emit ''subscribe'' [JStr name, JFun consumer]])"
  using assms by (simp add: subscribe_def subscribers_or_empty_usable)

theorem subscribe_appends_witness:
  "subscribe test_store ''message2'' 2 =
     (Inr (test_store\<lparr>subscribers := (subscribers test_store)(''message2'' \<mapsto> [2, 3, 2])\<rparr>),
      [Emit ''subscribe'' [JStr ''message2'', JFun 2]]) \<and>
   subscribe fresh_store ''message1'' 1 =
     (Inr (fresh_store\<lparr>subscribers := [''message1'' \<mapsto> [1]]\<rparr>),
      [Emit ''subscribe'' [JStr ''message1'', JFun 1]])"
proof (intro conjI)
  have present: "subscribers test_store ''message2'' \<noteq> None \<or> ''message2'' \<notin> set Object_prototype"
    by (simp add: test_store_def)
  have entry: "subscribers test_store ''message2'' = Some [2, 3]"
    by (simp add: test_store_def)
  show "subscribe test_store ''message2'' 2 =
     (Inr (test_store\<lparr>subscribers := (subscribers test_store)(''message2'' \<mapsto> [2, 3, 2])\<rparr>),
      [Emit ''subscribe'' [JStr ''message2'', JFun 2]])"
    using subscribe_appends [OF present, of 2] by (simp add: entry)
  have plain: "subscribers fresh_store ''message1'' \<noteq> None \<or> ''message1'' \<notin> set Object_prototype"
    by (simp add: Object_prototype_def)
  have none: "subscribers fresh_store ''message1'' = None"
    by (simp add: fresh_store_def)
  show "subscribe fresh_store ''message1'' 1 =
     (Inr (fresh_store\<lparr>subscribers := [''message1'' \<mapsto> [1]]\<rparr>),
      [Emit ''subscribe'' [JStr ''message1'', JFun 1]])"
    using subscribe_appends [OF plain, of 1] by (simp add: none fresh_store_def)
qed

text \<open>
  C7 as stated fails at the name \<open>constructor\<close>: on a store with an empty registry the
  lookup finds the inherited \<open>Object.prototype.constructor\<close>, which has no \<open>push\<close>, and
  the call throws; nothing is registered and no event is emitted.
\<close>

theorem subscribe_constructor_counterexample:
  "subscribers fresh_store ''constructor'' = None \<and>
   subscribe fresh_store ''constructor'' 1 =
     (Inl (TypeError ''subscribers.push is not a function''), [])"
  by (simp add: subscribe_def subscribers_or_empty_def get_property_def Object_prototype_def
      fresh_store_def)

subsection \<open>receiveMessage\<close>

text \<open>
  C3. A message whose source is the store's own node identity is never handed to a
  consumer, whatever the registry holds: the one call \<open>receiveMessage\<close> makes is the
  \<open>received\<close> event with \<open>(sourceNodeId, name, args)\<close>, and the store is as it was.
\<close>

theorem receiveMessage_own_message:
  assumes "sourceNodeId = nodeId this"
  shows "receiveMessage this sourceNodeId name args =
           (Inr this, [Emit ''received'' [JStr sourceNodeId, JStr name, JArr args]]) \<and>
         (\<forall>sub a. Apply sub a \<notin> set (snd (receiveMessage this sourceNodeId name args)))"
  using assms by (simp add: receiveMessage_def)

theorem receiveMessage_own_message_witness:
  "''my-node-id'' = nodeId test_store \<and>
   subscribers test_store ''message3'' = Some [4] \<and>
   receiveMessage test_store ''my-node-id'' ''message3'' [JStr ''a message''] =
     (Inr test_store,
      [Emit ''received'' [JStr ''my-node-id'', JStr ''message3'', JArr [JStr ''a message'']]])"
proof -
  have own: "''my-node-id'' = nodeId test_store"
    by (simp add: test_store_def fresh_store_def)
  have entry: "subscribers test_store ''message3'' = Some [4]"
    by (simp add: test_store_def)
  from receiveMessage_own_message [OF own, of "''message3''" "[JStr ''a message'']"] own entry
  show ?thesis by blast
qed

text \<open>
  C4. A message from another node identity is first announced by the \<open>received\<close> event and
  then handed to the consumers of the entry for its name: one call per element of the
  entry, in the entry's order, each with the message's \<open>args\<close> as argument list. No other
  call is made, so no consumer is invoked on account of another name. When the name has
  an entry, or is not an inherited property name, the call returns and the store is as it
  was.
\<close>

theorem receiveMessage_other_node:
  assumes "sourceNodeId \<noteq> nodeId this"
  shows "snd (receiveMessage this sourceNodeId name args) =
           Emit ''received'' [JStr sourceNodeId, JStr name, JArr args] #
           map (\<lambda>sub. Apply sub args) (case subscribers this name of None \<Rightarrow> [] | Some arr \<Rightarrow> arr) \<and>
         (subscribers this name \<noteq> None \<or> name \<notin> set Object_prototype \<longrightarrow>
            fst (receiveMessage this sourceNodeId name args) = Inr this)"
proof (intro conjI impI)
  show "snd (receiveMessage this sourceNodeId name args) =
           Emit ''received'' [JStr sourceNodeId, JStr name, JArr args] #
           map (\<lambda>sub. Apply sub args) (case subscribers this name of None \<Rightarrow> [] | Some arr \<Rightarrow> arr)"
    using assms
    by (simp add: receiveMessage_def subscribers_or_empty_def get_property_def split: option.splits)
next
  assume "subscribers this name \<noteq> None \<or> name \<notin> set Object_prototype"
  then show "fst (receiveMessage this sourceNodeId name args) = Inr this"
    using assms by (simp add: receiveMessage_def subscribers_or_empty_usable)
qed

theorem receiveMessage_other_node_witness:
  "''some-other-node'' \<noteq> nodeId test_store \<and>
   snd (receiveMessage test_store ''some-other-node'' ''message2'' [JNum 6, JNum 7, JStr ''eight'']) =
     [Emit ''received'' [JStr ''some-other-node'', JStr ''message2'', JArr [JNum 6, JNum 7, JStr ''eight'']],
      Apply 2 [JNum 6, JNum 7, JStr ''eight''],
      Apply 3 [JNum 6, JNum 7, JStr ''eight'']] \<and>
   fst (receiveMessage test_store ''some-other-node'' ''message2'' [JNum 6, JNum 7, JStr ''eight'']) =
     Inr test_store"
proof -
  have other: "''some-other-node'' \<noteq> nodeId test_store"
    by (simp add: test_store_def fresh_store_def)
  have entry: "subscribers test_store ''message2'' = Some [2, 3]"
    by (simp add: test_store_def)
  from receiveMessage_other_node [OF other, of "''message2''" "[JNum 6, JNum 7, JStr ''eight'']"]
  show ?thesis using other by (simp add: entry)
qed

text \<open>
  C10, as the code has it. A message from another node identity whose name has no entry
  and is not the name of a property inherited from \<open>Object.prototype\<close> is announced by
  the \<open>received\<close> event and nothing else happens: no consumer is called, no error is
  raised, and the registry is the one there was before (no entry is created).
\<close>

theorem receiveMessage_no_entry:
  assumes "sourceNodeId \<noteq> nodeId this"
    and "subscribers this name = None"
    and "name \<notin> set Object_prototype"
  shows "receiveMessage this sourceNodeId name args =
           (Inr this, [Emit ''received'' [JStr sourceNodeId, JStr name, JArr args]])"
  using assms by (simp add: receiveMessage_def subscribers_or_empty_usable)

theorem receiveMessage_no_entry_witness:
  "''some-other-node'' \<noteq> nodeId test_store \<and>
   subscribers test_store ''message9'' = None \<and>
   ''message9'' \<notin> set Object_prototype \<and>
   receiveMessage test_store ''some-other-node'' ''message9'' [JNum 1] =
     (Inr test_store, [Emit ''received'' [JStr ''some-other-node'', JStr ''message9'', JArr [JNum 1]]])"
proof -
  have other: "''some-other-node'' \<noteq> nodeId test_store"
    by (simp add: test_store_def fresh_store_def)
  have none: "subscribers test_store ''message9'' = None"
    by (simp add: test_store_def)
  have plain: "''message9'' \<notin> set Object_prototype"
    by (simp add: Object_prototype_def)
  from receiveMessage_no_entry [OF other none plain, of "[JNum 1]"] other none plain
  show ?thesis by blast
qed

text \<open>
  C10 as stated fails at the name \<open>constructor\<close>: no entry exists for it, yet the lookup
  finds the inherited \<open>Object.prototype.constructor\<close>, which has no \<open>forEach\<close>, and
  \<open>receiveMessage\<close> throws after the \<open>received\<close> event.
\<close>

theorem receiveMessage_constructor_counterexample:
  "''some-other-node'' \<noteq> nodeId fresh_store \<and>
   subscribers fresh_store ''constructor'' = None \<and>
   receiveMessage fresh_store ''some-other-node'' ''constructor'' [] =
     (Inl (TypeError ''subscribers.forEach is not a function''),
      [Emit ''received'' [JStr ''some-other-node'', JStr ''constructor'', JArr []]])"
  by (simp add: receiveMessage_def subscribers_or_empty_def get_property_def Object_prototype_def
      fresh_store_def)


subsection \<open>Construction\<close>

lemma choose_nodeId_calls: "set (snd (choose_nodeId uuid_value options_arg)) \<subseteq> {Uuid}"
  by (simp add: choose_nodeId_def split: option.splits)

text \<open>
  Construction with an options object. When the object holds both a connection string
  and a service object, or neither (held meaning truthy, as the code tests it),
  construction throws the \<open>Error\<close> of \<open>createServiceBusInterface\<close> and returns no
  store. Up to the throw the constructor has called the base class constructor and, when
  no node id was given, \<open>uuid()\<close>, and nothing else: no service, no transport layer, no
  listener hook, no handler registration, no \<open>start\<close>.
\<close>

lemma construction_rejects_both_or_neither:
  assumes "truthy_string (connectionString opts) = truthy_object (serviceBusService opts)"
  shows "fst (ServiceBusStore uuid_value (Some opts)) =
           Inl (Error (if truthy_string (connectionString opts)
                       then ''Should specify connection string or serviceBusService object, not both''
                       else ''Must specify one of connectionString or serviceBusService in options'')) \<and>
         set (snd (ServiceBusStore uuid_value (Some opts))) \<subseteq> {IoStoreApply (Some opts), Uuid}"
proof -
  obtain n e1 where chosen: "choose_nodeId uuid_value (Some opts) = (n, e1)"
    by (cases "choose_nodeId uuid_value (Some opts)")
  have e1: "set e1 \<subseteq> {Uuid}"
    using choose_nodeId_calls [of uuid_value "Some opts"] by (simp add: chosen)
  show ?thesis
  proof (cases "truthy_string (connectionString opts)")
    case True
    with assms have "truthy_object (serviceBusService opts)" by simp
    with True have "createServiceBusInterface n (Some opts) =
        (Inl (Error ''Should specify connection string or serviceBusService object, not both''), [])"
      by (simp add: createServiceBusInterface_def)
    with True e1 show ?thesis
      by (auto simp: ServiceBusStore_def chosen)
  next
    case False
    with assms have "\<not> truthy_object (serviceBusService opts)" by simp
    with False have "createServiceBusInterface n (Some opts) =
        (Inl (Error ''Must specify one of connectionString or serviceBusService in options''), [])"
      by (simp add: createServiceBusInterface_def)
    with False e1 show ?thesis
      by (auto simp: ServiceBusStore_def chosen)
  qed
qed

lemma construction_rejects_both_or_neither_example:
  "ServiceBusStore ''generated-uuid'' (Some (test_options\<lparr>connectionString := Some ''Endpoint=sb://ns''\<rparr>)) =
     (Inl (Error ''Should specify connection string or serviceBusService object, not both''),
      [IoStoreApply (Some (test_options\<lparr>connectionString := Some ''Endpoint=sb://ns''\<rparr>))]) \<and>
   ServiceBusStore ''generated-uuid'' (Some (test_options\<lparr>opt_nodeId := None, serviceBusService := None\<rparr>)) =
     (Inl (Error ''Must specify one of connectionString or serviceBusService in options''),
      [IoStoreApply (Some (test_options\<lparr>opt_nodeId := None, serviceBusService := None\<rparr>)), Uuid])"
proof (intro conjI)
  let ?both = "test_options\<lparr>connectionString := Some ''Endpoint=sb://ns''\<rparr>"
  let ?neither = "test_options\<lparr>opt_nodeId := None, serviceBusService := None\<rparr>"
  have both: "truthy_string (connectionString ?both) = truthy_object (serviceBusService ?both)"
    by (simp add: test_options_def truthy_string_def truthy_object_def)
  have calls_both: "snd (ServiceBusStore ''generated-uuid'' (Some ?both)) = [IoStoreApply (Some ?both)]"
    by (simp add: ServiceBusStore_def choose_nodeId_def createServiceBusInterface_def
        test_options_def truthy_string_def truthy_object_def)
  from construction_rejects_both_or_neither [OF both, of "''generated-uuid''"] calls_both
  show "ServiceBusStore ''generated-uuid'' (Some ?both) =
     (Inl (Error ''Should specify connection string or serviceBusService object, not both''),
      [IoStoreApply (Some ?both)])"
    by (simp add: prod_eq_iff test_options_def truthy_string_def)
  have neither: "truthy_string (connectionString ?neither) = truthy_object (serviceBusService ?neither)"
    by (simp add: test_options_def truthy_string_def truthy_object_def)
  have calls_neither: "snd (ServiceBusStore ''generated-uuid'' (Some ?neither)) =
      [IoStoreApply (Some ?neither), Uuid]"
    by (simp add: ServiceBusStore_def choose_nodeId_def createServiceBusInterface_def
        test_options_def truthy_string_def truthy_object_def)
  from construction_rejects_both_or_neither [OF neither, of "''generated-uuid''"] calls_neither
  show "ServiceBusStore ''generated-uuid'' (Some ?neither) =
     (Inl (Error ''Must specify one of connectionString or serviceBusService in options''),
      [IoStoreApply (Some ?neither), Uuid])"
    by (simp add: prod_eq_iff test_options_def truthy_string_def)
qed

text \<open>
  C5. A construction that supplies both transport sources, or neither, is meant to fail
  with the configuration error before anything is built. For every options object the
  code does so (lemma \<open>construction_rejects_both_or_neither\<close>). Construction without an
  options argument supplies neither source, and the constructor itself allows for it
  (\<open>options && options.nodeId\<close>, \<open>options && options.listeners\<close>); yet
  \<open>createServiceBusInterface\<close> reads \<open>options.connectionString\<close> unguarded, so what is
  thrown there is the language's TypeError and not the configuration \<open>Error\<close>. The
  calls made up to the throw are the base class constructor and \<open>uuid()\<close>.
\<close>

theorem construction_without_options_raises_TypeError:
  "ServiceBusStore uuid_value None =
     (Inl (TypeError ''Cannot read property connectionString of undefined''),
      [IoStoreApply None, Uuid])"
  by (simp add: ServiceBusStore_def choose_nodeId_def createServiceBusInterface_def)

text \<open>
  C8. When exactly one transport source is given, construction succeeds, and the calls it
  makes are, in order: those that build the transport, ending with the constructor of
  the batching transport; then the listener hooks; then the registration of the message
  handler and, last, the transport's \<open>start\<close>. The hooks are: for a single listener
  object, its \<open>store\<close> hook with the store and then its \<open>sb\<close> hook with the store's
  batching transport; for an array of listeners the same pair for each element, in array
  order; for no listeners, none. Each listener entry is visited once.
\<close>

theorem construction_hooks_listeners:
  assumes "truthy_string (connectionString opts) \<noteq> truthy_object (serviceBusService opts)"
  shows "\<exists>this createOptions building.
           ServiceBusStore uuid_value (Some opts) =
             (Inr this,
              building @ [NewBatchInterface createOptions (ServiceBusInterface createOptions)] @
              (case listeners opts of
                 NoListeners \<Rightarrow> []
               | OneListener l \<Rightarrow> [ListenerStore l this, ListenerSb l (sb this)]
               | ListenerArray xs \<Rightarrow>
                   concat (map (\<lambda>l. [ListenerStore l this, ListenerSb l (sb this)]) xs)) @
              [SbOn ''message'', SbStart]) \<and>
           sb this = BatchInterface createOptions (ServiceBusInterface createOptions) \<and>
           subscribers this = Map.empty \<and>
           set building \<subseteq> {IoStoreApply (Some opts), Uuid,
                             AzureCreateServiceBusService (connectionString opts),
                             NewServiceBusInterface createOptions}"
proof -
  obtain n e1 where chosen: "choose_nodeId uuid_value (Some opts) = (n, e1)"
    by (cases "choose_nodeId uuid_value (Some opts)")
  have e1: "set e1 \<subseteq> {Uuid}"
    using choose_nodeId_calls [of uuid_value "Some opts"] by (simp add: chosen)
  define service where "service =
    (if truthy_string (connectionString opts) then AzureService (connectionString opts)
     else OptionsService (serviceBusService opts))"
  define created where "created =
    (if truthy_string (connectionString opts)
     then [AzureCreateServiceBusService (connectionString opts)] else [])"
  define co where "co = \<lparr>co_nodeId = n, co_topic = topic opts,
    co_subscription = subscription opts, co_serviceBusService = service\<rparr>"
  define this where "this = \<lparr>nodeId = n, sb = BatchInterface co (ServiceBusInterface co),
    subscribers = Map.empty\<rparr>"
  have built: "createServiceBusInterface n (Some opts) =
      (Inr (BatchInterface co (ServiceBusInterface co)),
       created @ [NewServiceBusInterface co, NewBatchInterface co (ServiceBusInterface co)])"
    using assms
    by (cases "truthy_string (connectionString opts)")
      (simp_all add: createServiceBusInterface_def Let_def co_def service_def created_def)
  have hooks: "hookupListeners this (listeners opts) =
      (case listeners opts of
         NoListeners \<Rightarrow> []
       | OneListener l \<Rightarrow> [ListenerStore l this, ListenerSb l (sb this)]
       | ListenerArray xs \<Rightarrow>
           concat (map (\<lambda>l. [ListenerStore l this, ListenerSb l (sb this)]) xs))"
    by (simp add: hookupListeners_def listener_array_def split: listeners_option.splits)
  have run: "ServiceBusStore uuid_value (Some opts) =
      (Inr this,
       (IoStoreApply (Some opts) # e1 @ created @ [NewServiceBusInterface co]) @
       [NewBatchInterface co (ServiceBusInterface co)] @
       hookupListeners this (listeners opts) @
       [SbOn ''message'', SbStart])"
    by (simp add: ServiceBusStore_def Let_def chosen built this_def)
  have sb: "sb this = BatchInterface co (ServiceBusInterface co)"
    by (simp add: this_def)
  have registry: "subscribers this = Map.empty"
    by (simp add: this_def)
  have building: "set (IoStoreApply (Some opts) # e1 @ created @ [NewServiceBusInterface co]) \<subseteq>
      {IoStoreApply (Some opts), Uuid, AzureCreateServiceBusService (connectionString opts),
       NewServiceBusInterface co}"
    using e1 by (auto simp: created_def)
  from run [unfolded hooks] sb registry building show ?thesis by blast
qed

theorem construction_hooks_listeners_witness:
  "ServiceBusStore ''generated-uuid'' (Some test_options) =
     (Inr fresh_store,
      [IoStoreApply (Some test_options), NewServiceBusInterface test_create_options,
       NewBatchInterface test_create_options (ServiceBusInterface test_create_options),
       ListenerStore 10 fresh_store, ListenerSb 10 (sb fresh_store),
       ListenerStore 11 fresh_store, ListenerSb 11 (sb fresh_store),
       SbOn ''message'', SbStart]) \<and>
   ServiceBusStore ''generated-uuid'' (Some (test_options\<lparr>listeners := OneListener 12\<rparr>)) =
     (Inr fresh_store,
      [IoStoreApply (Some (test_options\<lparr>listeners := OneListener 12\<rparr>)),
       NewServiceBusInterface test_create_options,
       NewBatchInterface test_create_options (ServiceBusInterface test_create_options),
       ListenerStore 12 fresh_store, ListenerSb 12 (sb fresh_store),
       SbOn ''message'', SbStart])"
proof (intro conjI)
  let ?single = "test_options\<lparr>listeners := OneListener 12\<rparr>"
  let ?co = test_create_options
  have one: "truthy_string (connectionString test_options) \<noteq>
      truthy_object (serviceBusService test_options)"
    by (simp add: test_options_def truthy_string_def truthy_object_def)
  have store: "fst (ServiceBusStore ''generated-uuid'' (Some test_options)) = Inr fresh_store"
    by (simp add: ServiceBusStore_def choose_nodeId_def createServiceBusInterface_def
        test_options_def truthy_string_def truthy_object_def fresh_store_def
        test_create_options_def Let_def)
  have building: "take 3 (snd (ServiceBusStore ''generated-uuid'' (Some test_options))) =
      [IoStoreApply (Some test_options), NewServiceBusInterface ?co,
       NewBatchInterface ?co (ServiceBusInterface ?co)]"
    by (simp add: ServiceBusStore_def choose_nodeId_def createServiceBusInterface_def
        test_options_def truthy_string_def truthy_object_def test_create_options_def Let_def)
  have array: "listeners test_options = ListenerArray [10, 11]"
    by (simp add: test_options_def)
  from construction_hooks_listeners [OF one, of "''generated-uuid''"]
  obtain this co b where
    run: "ServiceBusStore ''generated-uuid'' (Some test_options) =
      (Inr this, b @ [NewBatchInterface co (ServiceBusInterface co)] @
         [ListenerStore 10 this, ListenerSb 10 (sb this),
          ListenerStore 11 this, ListenerSb 11 (sb this)] @ [SbOn ''message'', SbStart])"
    by (auto simp: array)
  from run store have st_eq: "this = fresh_store" by simp
  from run have len: "length (snd (ServiceBusStore ''generated-uuid'' (Some test_options))) =
      length b + 7" by simp
  have "length (snd (ServiceBusStore ''generated-uuid'' (Some test_options))) = 9"
    by (simp add: ServiceBusStore_def choose_nodeId_def createServiceBusInterface_def
        test_options_def truthy_string_def truthy_object_def hookupListeners_def
        listener_array_def Let_def)
  with len have lb: "length b = 2" by simp
  from run building lb have
    "b @ [NewBatchInterface co (ServiceBusInterface co)] =
       [IoStoreApply (Some test_options), NewServiceBusInterface ?co,
        NewBatchInterface ?co (ServiceBusInterface ?co)]"
    by simp
  with run st_eq show "ServiceBusStore ''generated-uuid'' (Some test_options) =
     (Inr fresh_store,
      [IoStoreApply (Some test_options), NewServiceBusInterface test_create_options,
       NewBatchInterface test_create_options (ServiceBusInterface test_create_options),
       ListenerStore 10 fresh_store, ListenerSb 10 (sb fresh_store),
       ListenerStore 11 fresh_store, ListenerSb 11 (sb fresh_store),
       SbOn ''message'', SbStart])"
    by simp
  have one': "truthy_string (connectionString ?single) \<noteq> truthy_object (serviceBusService ?single)"
    by (simp add: test_options_def truthy_string_def truthy_object_def)
  have store': "fst (ServiceBusStore ''generated-uuid'' (Some ?single)) = Inr fresh_store"
    by (simp add: ServiceBusStore_def choose_nodeId_def createServiceBusInterface_def
        test_options_def truthy_string_def truthy_object_def fresh_store_def
        test_create_options_def Let_def)
  have building': "take 3 (snd (ServiceBusStore ''generated-uuid'' (Some ?single))) =
      [IoStoreApply (Some ?single), NewServiceBusInterface ?co,
       NewBatchInterface ?co (ServiceBusInterface ?co)]"
    by (simp add: ServiceBusStore_def choose_nodeId_def createServiceBusInterface_def
        test_options_def truthy_string_def truthy_object_def test_create_options_def Let_def)
  have single: "listeners ?single = OneListener 12"
    by simp
  from construction_hooks_listeners [OF one', of "''generated-uuid''"]
  obtain this' co' b' where
    run': "ServiceBusStore ''generated-uuid'' (Some ?single) =
      (Inr this', b' @ [NewBatchInterface co' (ServiceBusInterface co')] @
         [ListenerStore 12 this', ListenerSb 12 (sb this')] @ [SbOn ''message'', SbStart])"
    by (auto simp: single)
  from run' store' have st_eq': "this' = fresh_store" by simp
  from run' have len': "length (snd (ServiceBusStore ''generated-uuid'' (Some ?single))) =
      length b' + 5" by simp
  have "length (snd (ServiceBusStore ''generated-uuid'' (Some ?single))) = 7"
    by (simp add: ServiceBusStore_def choose_nodeId_def createServiceBusInterface_def
        test_options_def truthy_string_def truthy_object_def hookupListeners_def
        listener_array_def Let_def)
  with len' have lb': "length b' = 2" by simp
  from run' building' lb' have
    "b' @ [NewBatchInterface co' (ServiceBusInterface co')] =
       [IoStoreApply (Some ?single), NewServiceBusInterface ?co,
        NewBatchInterface ?co (ServiceBusInterface ?co)]"
    by simp
  with run' st_eq' show "ServiceBusStore ''generated-uuid'' (Some ?single) =
     (Inr fresh_store,
      [IoStoreApply (Some ?single), NewServiceBusInterface test_create_options,
       NewBatchInterface test_create_options (ServiceBusInterface test_create_options),
       ListenerStore 12 fresh_store, ListenerSb 12 (sb fresh_store),
       SbOn ''message'', SbStart])"
    by simp
qed

end
